theory Spec2Isabelle
  imports Main "HOL-Library.Sublist" "HOL-Library.Char_ord" "HOL-Library.List_Lexorder" "HOL-Library.Option_ord" "HOL-Library.Product_Lexorder"
begin

section \<open>Python string operations used by the program\<close>

text \<open>
  Strings are lists of 8-bit characters. \<open>str.lower\<close> and \<open>str.upper\<close> are the ASCII case
  mappings (every other character is kept), \<open>str.strip\<close> removes the white space of
  \<open>str.isspace\<close> below code point 256 from both ends, and \<open>sub in s\<close> is
  \<^const>\<open>sublist\<close> (a contiguous run).
\<close>

definition lower_chr :: "char \<Rightarrow> char" where
  "lower_chr c =
     (let n = (of_char c :: nat) in if 65 \<le> n \<and> n \<le> 90 then char_of (n + 32) else c)"

definition upper_chr :: "char \<Rightarrow> char" where
  "upper_chr c =
     (let n = (of_char c :: nat) in if 97 \<le> n \<and> n \<le> 122 then char_of (n - 32) else c)"

definition lower :: "string \<Rightarrow> string" where
  "lower s = map lower_chr s"

definition upper :: "string \<Rightarrow> string" where
  "upper s = map upper_chr s"

definition isspace :: "char \<Rightarrow> bool" where
  "isspace c =
     (let n = (of_char c :: nat)
      in (9 \<le> n \<and> n \<le> 13) \<or> (28 \<le> n \<and> n \<le> 32) \<or> n = 133 \<or> n = 160)"

definition strip :: "string \<Rightarrow> string" where
  "strip s = rev (dropWhile isspace (rev (dropWhile isspace s)))"

definition str_in :: "string \<Rightarrow> string \<Rightarrow> bool" where
  "str_in sub s = sublist sub s"

text \<open>\<open>any(kw in s for kw in kws)\<close>\<close>

definition any_in :: "string list \<Rightarrow> string \<Rightarrow> bool" where
  "any_in kws s = list_ex (\<lambda>kw. str_in kw s) kws"

section \<open>Exceptions\<close>

text \<open>
  The exception classes the source distinguishes. In Selenium every class below except
  \<open>OtherException\<close> is a subclass of \<open>WebDriverException\<close>; the constructor
  \<open>WebDriverException\<close> stands for an instance that belongs to none of the named
  subclasses (a dead session). \<open>OtherException\<close> is any Python \<open>Exception\<close> that is not
  a \<open>WebDriverException\<close>.
\<close>

datatype exn =
    NoSuchElementException
  | StaleElementReferenceException
  | TimeoutException
  | ElementClickInterceptedException
  | WebDriverException
  | OtherException

fun is_WebDriverException :: "exn \<Rightarrow> bool" where
  "is_WebDriverException OtherException = False"
| "is_WebDriverException _ = True"

datatype 'a outcome = Raises exn | Returns 'a

section \<open>Task Board Session: \<open>extract_field_data\<close>\<close>

text \<open>
  What the browser answers for one row handle. \<open>find_elements\<close> on the row, keyed by the
  column name, gives the column divs or raises; \<open>find_elements\<close> on the first div, keyed
  by the span sub-XPath, gives the spans or raises; \<open>.text\<close> of the first span gives the
  raw text or raises. \<open>NotAWebElement\<close> is a value that fails the \<open>isinstance\<close> test.
\<close>

datatype span = Span (span_text: "string outcome")

datatype column_div = ColumnDiv (find_spans: "string \<Rightarrow> span list outcome")

datatype row_element =
    NotAWebElement
  | WebElement (find_columns: "string \<Rightarrow> column_div list outcome")

text \<open>
  The body of the \<open>try\<close> block (source lines 180 to 191): \<open>Inl e\<close> when a browser call
  raises \<open>e\<close>, \<open>Inr t\<close> with the value of \<open>field_text\<close> (or of the early \<open>return\<close>)
  otherwise.
\<close>

definition extract_body :: "row_element \<Rightarrow> string \<Rightarrow> string \<Rightarrow> string \<Rightarrow> exn + string" where
  "extract_body row_element column_name span_sub_xpath default_value =
     (case row_element of
        NotAWebElement \<Rightarrow> Inr default_value
      | WebElement find_elements \<Rightarrow>
          (case find_elements column_name of
             Raises e \<Rightarrow> Inl e
           | Returns [] \<Rightarrow> Inr default_value
           | Returns (column_div # _) \<Rightarrow>
               (case find_spans column_div span_sub_xpath of
                  Raises e \<Rightarrow> Inl e
                | Returns [] \<Rightarrow> Inr default_value
                | Returns (target_element # _) \<Rightarrow>
                    (case span_text target_element of
                       Raises e \<Rightarrow> Inl e
                     | Returns raw_text \<Rightarrow>
                         (let stripped_text = (if raw_text \<noteq> [] then strip raw_text else [])
                          in if stripped_text \<noteq> [] then Inr stripped_text
                             else Inr default_value)))))"

text \<open>
  The \<open>except\<close> clauses in source order: \<open>NoSuchElementException\<close> passes (the default is
  returned, since \<open>field_text\<close> is assigned last), \<open>StaleElementReferenceException\<close> and
  then every remaining \<open>WebDriverException\<close> are re-raised, any other exception is
  logged and the default returned.
\<close>

definition extract_field_data ::
  "row_element \<Rightarrow> string \<Rightarrow> string \<Rightarrow> string \<Rightarrow> string outcome" where
  "extract_field_data row_element column_name span_sub_xpath default_value =
     (case extract_body row_element column_name span_sub_xpath default_value of
        Inr t \<Rightarrow> Returns t
      | Inl e \<Rightarrow>
          (if e = NoSuchElementException then Returns default_value
           else if e = StaleElementReferenceException then Raises e
           else if is_WebDriverException e then Raises e
           else Returns default_value))"

definition text_span_xpath :: string where
  "text_span_xpath = ''//span[@data-testid='' @ [CHR 0x27] @ ''text-type-display-span'' @ [CHR 0x27] @ '']''"

definition Not_Specified :: string where
  "Not_Specified = ''Not Specified''"

section \<open>Activity Log\<close>

text \<open>
  A cell of the table is empty (\<open>pd.NA\<close>) or holds a string or a number; durations are
  whole seconds. A \<open>DataFrame\<close> is its column names and its rows, each row a list of
  cells in column order. How a workbook stores a cell on disk is not modelled: a
  workbook that was written is read back as the table that was written.
\<close>

datatype cell = NA | Str string | Num int

record data_frame =
  columns :: "string list"
  rows :: "cell list list"

definition LOG_COLUMNS_DEFINITION :: "string list" where
  "LOG_COLUMNS_DEFINITION =
     [''Date'', ''Observed Timestamp'', ''Claimed Timestamp'', ''Finished Timestamp'',
      ''Duration (seconds)'', ''Duration (HH:MM:SS)'', ''Case Display ID'', ''Country'',
      ''Assigned User'', ''Status (Observed)'', ''Account Name'', ''Case Title'',
      ''Menu Link'']"

text \<open>\<open>pd.DataFrame(columns=LOG_COLUMNS_DEFINITION)\<close>\<close>

definition empty_frame :: data_frame where
  "empty_frame = \<lparr>columns = LOG_COLUMNS_DEFINITION, rows = []\<rparr>"

text \<open>\<open>if col not in df.columns: df[col] = pd.NA\<close>: a new last column, empty in every row.\<close>

definition add_column_if_missing :: "data_frame \<Rightarrow> string \<Rightarrow> data_frame" where
  "add_column_if_missing df col =
     (if col \<in> set (columns df) then df
      else \<lparr>columns = columns df @ [col], rows = map (\<lambda>r. r @ [NA]) (rows df)\<rparr>)"

text \<open>
  \<open>df[cols]\<close>: the named columns in the given order; \<open>None\<close> is the \<open>KeyError\<close> of a
  name the frame does not have. A row shorter than the header reads as empty there.
\<close>

definition cell_at :: "string list \<Rightarrow> cell list \<Rightarrow> string \<Rightarrow> cell" where
  "cell_at cols r c = (case map_of (zip cols r) c of Some v \<Rightarrow> v | None \<Rightarrow> NA)"

definition select_columns :: "string list \<Rightarrow> data_frame \<Rightarrow> data_frame option" where
  "select_columns cols df =
     (if list_all (\<lambda>c. c \<in> set (columns df)) cols
      then Some \<lparr>columns = cols, rows = map (\<lambda>r. map (cell_at (columns df) r) cols) (rows df)\<rparr>
      else None)"

text \<open>
  The log file: absent, a workbook holding a table, or a file \<open>read_excel\<close> cannot read.
\<close>

datatype file_content = Workbook data_frame | Unreadable

text \<open>
  \<open>get_case_log_df\<close>. The flag says whether the \<open>to_excel\<close> that creates a missing file
  succeeds. Every exception ends in the \<open>except\<close> clause, which returns an empty frame
  with the canonical columns.
\<close>

definition get_case_log_df :: "bool \<Rightarrow> file_content option \<Rightarrow> data_frame \<times> file_content option" where
  "get_case_log_df create_ok file =
     (case file of
        Some (Workbook df) \<Rightarrow>
          (case select_columns LOG_COLUMNS_DEFINITION
                  (foldl add_column_if_missing df LOG_COLUMNS_DEFINITION) of
             Some df' \<Rightarrow> (df', file)
           | None \<Rightarrow> (empty_frame, file))
      | Some Unreadable \<Rightarrow> (empty_frame, file)
      | None \<Rightarrow>
          (if create_ok then (empty_frame, Some (Workbook empty_frame))
           else (empty_frame, None)))"

text \<open>
  A log entry is a Python dict: keys in insertion order, each with its cell.
  \<open>pd.DataFrame([log_entry_dict])\<close> is the one-row frame of its keys and values.
\<close>

type_synonym log_entry = "(string \<times> cell) list"

definition frame_of_entry :: "log_entry \<Rightarrow> data_frame" where
  "frame_of_entry log_entry_dict =
     \<lparr>columns = map fst log_entry_dict, rows = [map snd log_entry_dict]\<rparr>"

text \<open>
  \<open>append_to_case_log\<close>: the first flag is passed to \<open>get_case_log_df\<close>, the second says
  whether the final \<open>to_excel\<close> succeeds. The result is the returned boolean and the file
  afterwards.
\<close>

definition append_to_case_log ::
  "bool \<Rightarrow> bool \<Rightarrow> log_entry \<Rightarrow> file_content option \<Rightarrow> bool \<times> file_content option" where
  "append_to_case_log create_ok write_ok log_entry_dict file =
     (let (df_log0, file1) = get_case_log_df create_ok file;
          new_entry_df = foldl add_column_if_missing (frame_of_entry log_entry_dict)
                           LOG_COLUMNS_DEFINITION;
          df_log1 = foldl add_column_if_missing df_log0 LOG_COLUMNS_DEFINITION
      in case (select_columns LOG_COLUMNS_DEFINITION new_entry_df,
               select_columns LOG_COLUMNS_DEFINITION df_log1) of
           (Some new_entry_df', Some df_log') \<Rightarrow>
             (if write_ok
              then (True, Some (Workbook
                      \<lparr>columns = columns df_log', rows = rows df_log' @ rows new_entry_df'\<rparr>))
              else (False, file1))
         | _ \<Rightarrow> (False, file1))"





section \<open>Shared state of the worker and the observer\<close>

text \<open>
  The dictionary built for a claimed case (source lines 1380 to 1389). Its keys are
  fixed, so it is a record; \<open>scraped_files\<close> stands for the opaque payloads of the
  Extraction Pipeline.
\<close>

type_synonym scraped_files = string

record claimed_case =
  display_id :: string
  row_id_attr :: "string option"
  user_email :: string
  account_name :: string
  case_title :: string
  main_task_id :: string
  menu_link :: string
  dish_photos_link :: string
  country :: string
  status :: string
  menu_instructions :: string
  request_sent_date :: string
  created_by :: string
  claimed_time :: string
  scraped_files_data :: "scraped_files option"

text \<open>A message on \<open>data_queue_claimer\<close>.\<close>

record queue_msg =
  msg_status :: string
  msg_claimed_case_data :: "claimed_case option"

text \<open>
  The lines of \<open>add_log\<close> that the properties below speak about, as events: the attempt
  to locate row \<open>i+1\<close> (source line 1289), the row scan line (1341), the potential claim
  (1350) and the presumed claim (1390). Other log lines are left out.
\<close>

datatype log_event =
    LocateRow nat
  | RowScan nat string string string string
  | PotentialClaim string string
  | ClaimSuccess string string

text \<open>
  The module's globals. A category slot is a dict in the source, empty when free; here
  \<open>None\<close> is the empty dict and \<open>Some c\<close> the claimed case's dict. The unbounded
  \<open>queue.Queue()\<close> is a list, oldest message first. \<open>case_log_file\<close> is the workbook on
  disk. Two fields record effects outside the program's variables: whether the worker
  holds a browser session, and how many worker threads have been started.
\<close>

record shared =
  monitoring_active_flag :: bool
  claimer_status_message :: string
  active_portugal_case_store :: "claimed_case option"
  active_ghana_case_store :: "claimed_case option"
  data_queue_claimer :: "queue_msg list"
  stop_event_claimer :: bool
  case_log_file :: "file_content option"
  app_log_messages :: "log_event list"
  browser_session_open :: bool
  threads_started :: nat

definition initial_shared :: shared where
  "initial_shared =
     \<lparr>monitoring_active_flag = False,
      claimer_status_message = ''Idle. Press Start Monitoring.'',
      active_portugal_case_store = None,
      active_ghana_case_store = None,
      data_queue_claimer = [],
      stop_event_claimer = False,
      case_log_file = None,
      app_log_messages = [],
      browser_session_open = False,
      threads_started = 0\<rparr>"

definition add_log :: "log_event \<Rightarrow> shared \<Rightarrow> shared" where
  "add_log ev sh = sh\<lparr>app_log_messages := app_log_messages sh @ [ev]\<rparr>"

definition put_nowait :: "queue_msg \<Rightarrow> shared \<Rightarrow> shared" where
  "put_nowait m sh = sh\<lparr>data_queue_claimer := data_queue_claimer sh @ [m]\<rparr>"

section \<open>Observer callbacks\<close>

text \<open>
  \<open>toggle_monitoring\<close>, for a click (\<open>n_clicks\<close> is truthy). The boolean says whether
  \<open>USER_DATA_DIR\<close> passes the directory test of source line 1941. In the start branch the
  worker thread is started; the model counts it.
\<close>

definition USER_DATA_DIR :: string where
  "USER_DATA_DIR = ''C:'' @ [CHR 0x5C] @ ''Users'' @ [CHR 0x5C] @ ''2407850'' @ [CHR 0x5C]
     @ ''AppData'' @ [CHR 0x5C] @ ''Local'' @ [CHR 0x5C] @ ''Google'' @ [CHR 0x5C] @ ''Chrome''
     @ [CHR 0x5C] @ ''User Data''"

definition toggle_monitoring :: "bool \<Rightarrow> shared \<Rightarrow> shared" where
  "toggle_monitoring user_data_dir_ok sh =
     (if monitoring_active_flag sh
      then sh\<lparr>stop_event_claimer := True,
              claimer_status_message := ''Claimer: Stop requested... Awaiting thread termination.''\<rparr>
      else if \<not> user_data_dir_ok
      then sh\<lparr>claimer_status_message :=
                ''CRITICAL: USER_DATA_DIR ('' @ [CHR 0x27] @ USER_DATA_DIR @ [CHR 0x27]
                @ '') incorrect or not found. Please update the script.''\<rparr>
      else sh\<lparr>active_portugal_case_store := None,
              active_ghana_case_store := None,
              data_queue_claimer := [],
              monitoring_active_flag := True,
              stop_event_claimer := False,
              claimer_status_message := ''Claimer: Starting...'',
              threads_started := threads_started sh + 1\<rparr>)"

text \<open>
  \<open>update_active_cases_display\<close>: the queue is drained, oldest message first (source
  lines 1992 to 2011). The rendering of the cards is left out.
\<close>

definition process_queue_msg :: "shared \<Rightarrow> queue_msg \<Rightarrow> shared" where
  "process_queue_msg sh queued_message =
     (let q_status = msg_status queued_message
      in case (if str_in ''CLAIM_SUCCESS'' q_status then msg_claimed_case_data queued_message
               else None) of
           Some claimed_data_in_q \<Rightarrow>
             (if country claimed_data_in_q = ''Portugal''
              then sh\<lparr>active_portugal_case_store := Some claimed_data_in_q\<rparr>
              else if country claimed_data_in_q = ''Ghana''
              then sh\<lparr>active_ghana_case_store := Some claimed_data_in_q\<rparr>
              else sh)
         | None \<Rightarrow>
             (if q_status \<in> set [''DRIVER_INIT_FAIL'', ''LOGIN_FAIL'', ''THREAD_EXCEPTION'',
                                 ''DRIVER_DEAD_PRE_CHECK'', ''DRIVER_DEAD'']
              then sh\<lparr>active_portugal_case_store := None, active_ghana_case_store := None\<rparr>
              else sh))"

definition update_active_cases_display :: "shared \<Rightarrow> shared" where
  "update_active_cases_display sh =
     foldl process_queue_msg (sh\<lparr>data_queue_claimer := []\<rparr>) (data_queue_claimer sh)"

text \<open>
  \<open>finish_case_callback\<close>. The clock and the two library calls it makes are inputs:
  \<open>seconds_since\<close> is \<open>strptime\<close> of the claimed time followed by the difference to now
  in whole seconds (\<open>None\<close> for the \<open>ValueError\<close>), \<open>timedelta_str\<close> is
  \<open>str(timedelta(seconds=n))\<close>.
\<close>

record finish_env =
  finish_date :: string
  finish_timestamp :: string
  seconds_since :: "string \<Rightarrow> int option"
  timedelta_str :: "int \<Rightarrow> string"
  finish_create_ok :: bool
  finish_write_ok :: bool

definition format_duration :: "(int \<Rightarrow> string) \<Rightarrow> int option \<Rightarrow> string" where
  "format_duration td seconds =
     (case seconds of
        None \<Rightarrow> ''N/A''
      | Some n \<Rightarrow> if n < 0 then ''N/A'' else td n)"

definition finish_log_entry :: "finish_env \<Rightarrow> claimed_case \<Rightarrow> log_entry" where
  "finish_log_entry env case_to_finish_details =
     (let calculated_duration_seconds =
            (if claimed_time case_to_finish_details \<noteq> []
             then seconds_since env (claimed_time case_to_finish_details) else None)
      in [(''Date'', Str (finish_date env)),
          (''Observed Timestamp'', Str (finish_timestamp env)),
          (''Claimed Timestamp'', Str (claimed_time case_to_finish_details)),
          (''Finished Timestamp'', Str (finish_timestamp env)),
          (''Duration (seconds)'',
             (case calculated_duration_seconds of Some n \<Rightarrow> Num n | None \<Rightarrow> NA)),
          (''Duration (HH:MM:SS)'',
             (case calculated_duration_seconds of
                Some n \<Rightarrow> Str (format_duration (timedelta_str env) (Some n))
              | None \<Rightarrow> NA)),
          (''Case Display ID'', Str (display_id case_to_finish_details)),
          (''Country'', Str (country case_to_finish_details)),
          (''Assigned User'', Str ''BOT_CLAIMED''),
          (''Status (Observed)'', Str ''Completed''),
          (''Account Name'', Str (account_name case_to_finish_details)),
          (''Case Title'', Str (case_title case_to_finish_details)),
          (''Menu Link'', Str (menu_link case_to_finish_details))])"

text \<open>
  The first argument is the test of line 2064 (a finish button was really pressed), the
  second the \<open>index\<close> of the pressed button.
\<close>

definition finish_case_callback :: "bool \<Rightarrow> string \<Rightarrow> finish_env \<Rightarrow> shared \<Rightarrow> shared" where
  "finish_case_callback triggered country_index env sh =
     (if \<not> triggered then sh
      else
        (case (if country_index = ''pt'' then active_portugal_case_store sh else None) of
           Some case_to_finish_details \<Rightarrow>
             sh\<lparr>active_portugal_case_store := None,
                case_log_file :=
                  snd (append_to_case_log (finish_create_ok env) (finish_write_ok env)
                         (finish_log_entry env case_to_finish_details) (case_log_file sh))\<rparr>
         | None \<Rightarrow>
             (case (if country_index = ''gh'' then active_ghana_case_store sh else None) of
                Some case_to_finish_details \<Rightarrow>
                  sh\<lparr>active_ghana_case_store := None,
                     case_log_file :=
                       snd (append_to_case_log (finish_create_ok env) (finish_write_ok env)
                              (finish_log_entry env case_to_finish_details) (case_log_file sh))\<rparr>
              | None \<Rightarrow> sh)))"

text \<open>
  What the observer may do between two steps of the worker: press the start/stop
  button, let the display interval fire, or press a finish button.
\<close>

datatype observer_action =
    ToggleMonitoring bool
  | UpdateActiveCasesDisplay
  | FinishCase string finish_env

fun apply_observer :: "shared \<Rightarrow> observer_action \<Rightarrow> shared" where
  "apply_observer sh (ToggleMonitoring user_data_dir_ok) = toggle_monitoring user_data_dir_ok sh"
| "apply_observer sh UpdateActiveCasesDisplay = update_active_cases_display sh"
| "apply_observer sh (FinishCase country_index env) = finish_case_callback True country_index env sh"

definition run_observer :: "observer_action list \<Rightarrow> shared \<Rightarrow> shared" where
  "run_observer acts sh = foldl apply_observer sh acts"

section \<open>Claim Coordinator: \<open>find_and_claim_cases\<close>\<close>

text \<open>Python's \<open>str\<close> of a natural number, for the row index in a fallback display id.\<close>

function str_nat :: "nat \<Rightarrow> string" where
  "str_nat n =
     (if n < 10 then [char_of (48 + n)] else str_nat (n div 10) @ [char_of (48 + n mod 10)])"
  by pat_completeness auto
termination
  by (relation "measure id") auto

declare str_nat.simps [simp del]

text \<open>
  What the browser does while one row is processed. The locate, scroll and visibility
  phase (source lines 1288 to 1330) only talks to the browser: \<open>visibility\<close> is its net
  result, the value of \<open>is_row_visible_and_interactable\<close> or the exception that leaves
  the phase. \<open>open_and_start\<close> is the net result of opening the row and pressing
  Start Task (lines 1361 to 1378). \<open>observer_before_row\<close> is what the observer does
  after the previous row and before the stop check at the head of this row's iteration.
  The clock readings and the outcome of each file write are inputs as well.
\<close>

record row_env =
  observer_before_row :: "observer_action list"
  visibility :: "bool outcome"
  element :: row_element
  id_attr :: "string option outcome"
  open_and_start :: "unit outcome"
  scrape_and_prepare_case_files :: "string \<Rightarrow> string \<Rightarrow> string \<Rightarrow> scraped_files option"
  nav_home_after_claim :: "unit outcome"
  nav_home_after_error :: "unit outcome"
  strftime_claimed :: string
  now_date :: string
  now_timestamp :: string
  log_create_ok :: bool
  log_write_ok :: bool

definition then_do :: "'a outcome \<Rightarrow> ('a \<Rightarrow> 'b outcome) \<Rightarrow> 'b outcome" where
  "then_do x f = (case x of Raises e \<Rightarrow> Raises e | Returns v \<Rightarrow> f v)"

definition email_span_xpath :: string where
  "email_span_xpath = ''//span[@data-testid='' @ [CHR 0x27] @ ''email-type-display-span'' @ [CHR 0x27] @ '']''"

definition url_span_xpath :: string where
  "url_span_xpath = ''//span[contains(@class, '' @ [CHR 0x27] @ ''UrlTypeDisplay__text'' @ [CHR 0x27] @ '')]''"

definition date_span_xpath :: string where
  "date_span_xpath = ''//span[@data-testid='' @ [CHR 0x27] @ ''date-time-type-display-span'' @ [CHR 0x27] @ '']''"

text \<open>The fields read from every visible row (source lines 1332 to 1339).\<close>

record row_scan =
  scan_main_task_id :: string
  scan_row_id_attr :: "string option"
  scan_display_id :: string
  scan_status :: string
  scan_country :: string
  scan_user_email :: string

text \<open>
  Lines 1288 to 1339 for the row at index \<open>i\<close>: \<open>Returns None\<close> is the \<open>continue\<close> of a
  row that is not visible.
\<close>

definition scan_row :: "nat \<Rightarrow> row_env \<Rightarrow> row_scan option outcome" where
  "scan_row i r =
     then_do (visibility r) (\<lambda>is_row_visible_and_interactable.
       if \<not> is_row_visible_and_interactable then Returns None
       else
         then_do (extract_field_data (element r) ''Main Task ID'' text_span_xpath [])
           (\<lambda>main_task_id_val.
         then_do (id_attr r) (\<lambda>row_id_attr_val.
         then_do (extract_field_data (element r) ''Status'' text_span_xpath
                    ''Status Not Specified'') (\<lambda>status_v.
         then_do (extract_field_data (element r) ''Country'' text_span_xpath
                    ''Country Not Specified'') (\<lambda>country_from_row.
         then_do (extract_field_data (element r) ''Useremail'' email_span_xpath ''N/A'')
           (\<lambda>user_email_on_row.
           Returns (Some
             \<lparr>scan_main_task_id = main_task_id_val,
              scan_row_id_attr = row_id_attr_val,
              scan_display_id =
                (if main_task_id_val \<noteq> [] then main_task_id_val
                 else (case row_id_attr_val of
                         Some a \<Rightarrow> if a \<noteq> [] then a
                                   else ''Row_Index_'' @ str_nat (i + 1) @ ''_NoID''
                       | None \<Rightarrow> ''Row_Index_'' @ str_nat (i + 1) @ ''_NoID'')),
              scan_status = status_v,
              scan_country = country_from_row,
              scan_user_email = user_email_on_row\<rparr>)))))))"

text \<open>
  The claim decision (source lines 1343 to 1347): the category whose slot this row is
  to be claimed for, if any. The two booleans are \<open>active_pt_case_exists\<close> and
  \<open>active_gh_case_exists\<close>, read once at the start of the pass.
\<close>

definition claim_this_case_for_country_slot ::
  "bool \<Rightarrow> bool \<Rightarrow> string \<Rightarrow> string \<Rightarrow> string option" where
  "claim_this_case_for_country_slot active_pt_case_exists active_gh_case_exists
       country_from_row status_v =
     (if country_from_row = ''Portugal'' \<and> status_v = ''Not Started'' \<and> \<not> active_pt_case_exists
      then Some ''Portugal''
      else if country_from_row = ''Ghana'' \<and> status_v = ''Not Started'' \<and> \<not> active_gh_case_exists
      then Some ''Ghana''
      else None)"

text \<open>The seven further fields read before a claim attempt (lines 1352 to 1358).\<close>

record claim_fields =
  cf_account_name :: string
  cf_case_title :: string
  cf_menu_link :: string
  cf_dish_photos_link :: string
  cf_menu_instructions :: string
  cf_request_sent_date :: string
  cf_created_by :: string

definition extract_claim_fields :: "row_env \<Rightarrow> claim_fields outcome" where
  "extract_claim_fields r =
     then_do (extract_field_data (element r) ''Account Name'' text_span_xpath ''N/A'') (\<lambda>a.
     then_do (extract_field_data (element r) ''Case Title'' text_span_xpath ''N/A'') (\<lambda>t.
     then_do (extract_field_data (element r) ''Menu link'' url_span_xpath ''N/A'') (\<lambda>m.
     then_do (extract_field_data (element r) ''Dish Photos Link'' url_span_xpath ''N/A'') (\<lambda>d.
     then_do (extract_field_data (element r) ''Menu instructions'' text_span_xpath ''N/A'') (\<lambda>mi.
     then_do (extract_field_data (element r) ''Menu Request Sent Date'' date_span_xpath ''N/A'')
       (\<lambda>rs.
     then_do (extract_field_data (element r) ''Created By'' text_span_xpath ''N/A'') (\<lambda>cb.
       Returns \<lparr>cf_account_name = a, cf_case_title = t, cf_menu_link = m,
                cf_dish_photos_link = d, cf_menu_instructions = mi,
                cf_request_sent_date = rs, cf_created_by = cb\<rparr>)))))))"

definition compatible_domains :: "string list" where
  "compatible_domains = [''glovoapp.com'', ''ubereats.com'', ''wolt.com'', ''foodora.cz'']"

definition url_to_scrape_for_case :: "string \<Rightarrow> string \<Rightarrow> string option" where
  "url_to_scrape_for_case menu_link_v dish_photos_link_v =
     (if menu_link_v \<noteq> [] \<and> menu_link_v \<noteq> ''N/A'' \<and> any_in compatible_domains (lower menu_link_v)
      then Some menu_link_v
      else if dish_photos_link_v \<noteq> [] \<and> dish_photos_link_v \<noteq> ''N/A''
              \<and> any_in compatible_domains (lower dish_photos_link_v)
      then Some dish_photos_link_v
      else None)"

text \<open>
  The local variables of one pass that outlive a row: \<open>current_pass_status\<close>,
  \<open>claimed_case_details_to_return\<close>, and the globals.
\<close>

record pass_state =
  current_pass_status :: string
  claimed_case_details_to_return :: "claimed_case option"
  globals :: shared

datatype flow = BreakLoop | ContinueLoop | FallThrough

text \<open>
  The two \<open>except\<close> clauses of the claim attempt (lines 1416 to 1433). A
  \<open>WebDriverException\<close> marks the driver dead and leaves the row loop, whatever the
  navigation back does. Any other exception navigates back and goes on below the
  attempt, unless that navigation raises a \<open>WebDriverException\<close>.
\<close>

definition claim_except :: "row_env \<Rightarrow> exn \<Rightarrow> pass_state \<Rightarrow> flow \<times> pass_state" where
  "claim_except r e st =
     (if is_WebDriverException e
      then (BreakLoop, st\<lparr>current_pass_status := ''DRIVER_DEAD_CLAIM_PROC''\<rparr>)
      else (case nav_home_after_error r of
              Raises e2 \<Rightarrow>
                (if is_WebDriverException e2
                 then (BreakLoop, st\<lparr>current_pass_status := ''DRIVER_DEAD_NAV_BACK_FAIL''\<rparr>)
                 else (FallThrough, st))
            | Returns _ \<Rightarrow> (FallThrough, st)))"

text \<open>The \<open>try\<close> block of the claim attempt (lines 1361 to 1414).\<close>

definition attempt_claim ::
  "row_env \<Rightarrow> row_scan \<Rightarrow> claim_fields \<Rightarrow> string \<Rightarrow> pass_state \<Rightarrow> flow \<times> pass_state" where
  "attempt_claim r sc cf slot st =
     (case open_and_start r of
        Raises e \<Rightarrow> claim_except r e st
      | Returns _ \<Rightarrow>
          (let details =
                 \<lparr>display_id = scan_display_id sc, row_id_attr = scan_row_id_attr sc,
                  user_email = scan_user_email sc, account_name = cf_account_name cf,
                  case_title = cf_case_title cf, main_task_id = scan_main_task_id sc,
                  menu_link = cf_menu_link cf, dish_photos_link = cf_dish_photos_link cf,
                  country = slot,
                  status = ''In Progress (Claimed by Bot for '' @ slot @ '')'',
                  menu_instructions = cf_menu_instructions cf,
                  request_sent_date = cf_request_sent_date cf,
                  created_by = cf_created_by cf, claimed_time = strftime_claimed r,
                  scraped_files_data = None\<rparr>;
               st1 = st\<lparr>claimed_case_details_to_return := Some details,
                        current_pass_status := ''CLAIM_SUCCESS_'' @ upper slot,
                        globals := add_log (ClaimSuccess (scan_display_id sc) slot) (globals st)\<rparr>;
               st2 =
                 (case url_to_scrape_for_case (cf_menu_link cf) (cf_dish_photos_link cf) of
                    None \<Rightarrow> st1
                  | Some u \<Rightarrow>
                      (case scrape_and_prepare_case_files r u slot (scan_display_id sc) of
                         None \<Rightarrow> st1
                       | Some scraped_data \<Rightarrow>
                           st1\<lparr>claimed_case_details_to_return :=
                                 Some (details\<lparr>scraped_files_data := Some scraped_data\<rparr>)\<rparr>))
           in case nav_home_after_claim r of
                Raises e \<Rightarrow> claim_except r e st2
              | Returns _ \<Rightarrow> (BreakLoop, st2)))"

text \<open>
  Logging colleague activity (source lines 1435 to 1458). The dictionary's values are
  evaluated in order, so an exception of one of the three field reads leaves before
  anything is appended.
\<close>

definition colleague_log_entry ::
  "row_env \<Rightarrow> row_scan \<Rightarrow> string \<Rightarrow> string \<Rightarrow> string \<Rightarrow> log_entry" where
  "colleague_log_entry r sc account title link =
     [(''Date'', Str (now_date r)),
      (''Observed Timestamp'', Str (now_timestamp r)),
      (''Claimed Timestamp'', NA),
      (''Finished Timestamp'', NA),
      (''Duration (seconds)'', NA),
      (''Duration (HH:MM:SS)'', NA),
      (''Case Display ID'', Str (scan_display_id sc)),
      (''Country'', Str (scan_country sc)),
      (''Assigned User'', Str (scan_user_email sc)),
      (''Status (Observed)'', Str (scan_status sc)),
      (''Account Name'', Str account),
      (''Case Title'', Str title),
      (''Menu Link'', Str link)]"

definition bot_email_identifier :: string where
  "bot_email_identifier = ''BOT_CLAIMED''"

definition log_colleague_activity ::
  "row_env \<Rightarrow> row_scan \<Rightarrow> pass_state \<Rightarrow> (exn + flow) \<times> pass_state" where
  "log_colleague_activity r sc st =
     (if scan_user_email sc \<noteq> [] \<and> scan_user_email sc \<noteq> ''N/A''
         \<and> \<not> str_in (lower bot_email_identifier) (lower (scan_user_email sc))
         \<and> lower (scan_status sc) \<in> set [''inprogress'', ''escalated'', ''completed'']
      then
        (case then_do (extract_field_data (element r) ''Account Name'' text_span_xpath ''N/A'')
                (\<lambda>a.
              then_do (extract_field_data (element r) ''Case Title'' text_span_xpath ''N/A'')
                (\<lambda>t.
              then_do (extract_field_data (element r) ''Menu link'' url_span_xpath ''N/A'')
                (\<lambda>m. Returns (colleague_log_entry r sc a t m)))) of
           Raises e \<Rightarrow> (Inl e, st)
         | Returns entry \<Rightarrow>
             (Inr FallThrough,
              st\<lparr>globals := (globals st)\<lparr>case_log_file :=
                    snd (append_to_case_log (log_create_ok r) (log_write_ok r) entry
                           (case_log_file (globals st)))\<rparr>\<rparr>))
      else (Inr FallThrough, st))"

text \<open>
  The \<open>try\<close> block of one row (lines 1287 to 1458): \<open>Inl e\<close> when \<open>e\<close> reaches the row's
  \<open>except\<close> clauses, otherwise how the block is left. What was assigned or logged
  before an exception stays.
\<close>

definition row_try ::
  "nat \<Rightarrow> bool \<Rightarrow> bool \<Rightarrow> row_env \<Rightarrow> pass_state \<Rightarrow> (exn + flow) \<times> pass_state" where
  "row_try i active_pt_case_exists active_gh_case_exists r st0 =
     (let st = st0\<lparr>globals := add_log (LocateRow (i + 1)) (globals st0)\<rparr>
      in case scan_row i r of
           Raises e \<Rightarrow> (Inl e, st)
         | Returns None \<Rightarrow> (Inr ContinueLoop, st)
         | Returns (Some sc) \<Rightarrow>
             (let st1 = st\<lparr>globals :=
                          add_log (RowScan (i + 1) (scan_display_id sc) (scan_country sc)
                                     (scan_status sc) (scan_user_email sc)) (globals st)\<rparr>
              in case claim_this_case_for_country_slot active_pt_case_exists
                        active_gh_case_exists (scan_country sc) (scan_status sc) of
                   None \<Rightarrow> log_colleague_activity r sc st1
                 | Some slot \<Rightarrow>
                     (let st2 = st1\<lparr>globals :=
                                  add_log (PotentialClaim slot (scan_display_id sc)) (globals st1)\<rparr>
                      in case extract_claim_fields r of
                           Raises e \<Rightarrow> (Inl e, st2)
                         | Returns cf \<Rightarrow>
                             (case attempt_claim r sc cf slot st2 of
                                (BreakLoop, st3) \<Rightarrow> (Inr BreakLoop, st3)
                              | (_, st3) \<Rightarrow> log_colleague_activity r sc st3))))"

text \<open>
  One iteration of the row loop below the stop check: the \<open>try\<close> block, the row's
  \<open>except\<close> clauses (lines 1460 to 1471) and the check of line 1473. The boolean says
  whether the loop goes on to the next row.
\<close>

definition process_row ::
  "nat \<Rightarrow> bool \<Rightarrow> bool \<Rightarrow> row_env \<Rightarrow> pass_state \<Rightarrow> bool \<times> pass_state" where
  "process_row i active_pt_case_exists active_gh_case_exists r st0 =
     (case row_try i active_pt_case_exists active_gh_case_exists r st0 of
        (Inl e, st) \<Rightarrow>
          (if e = StaleElementReferenceException then (True, st)
           else if e = TimeoutException then (True, st)
           else if is_WebDriverException e
           then (False, st\<lparr>current_pass_status := ''DRIVER_DEAD_ROW_PROC''\<rparr>)
           else (True, st))
      | (Inr BreakLoop, st) \<Rightarrow> (False, st)
      | (Inr ContinueLoop, st) \<Rightarrow> (True, st)
      | (Inr FallThrough, st) \<Rightarrow>
          (if current_pass_status st \<in> set [''DRIVER_DEAD_CLAIM_PROC'',
                ''DRIVER_DEAD_NAV_BACK_FAIL'', ''DRIVER_DEAD_ROW_PROC'']
           then (False, st) else (True, st)))"

text \<open>The row loop (lines 1279 to 1473), from index \<open>i\<close> over the rows still to come.\<close>

fun scan_rows :: "nat \<Rightarrow> bool \<Rightarrow> bool \<Rightarrow> row_env list \<Rightarrow> pass_state \<Rightarrow> pass_state" where
  "scan_rows i pt gh [] st = st"
| "scan_rows i pt gh (r # rs) st0 =
     (let st = st0\<lparr>globals := run_observer (observer_before_row r) (globals st0)\<rparr>
      in if stop_event_claimer (globals st) then st\<lparr>current_pass_status := ''STOPPED''\<rparr>
         else (case process_row i pt gh r st of
                 (True, st') \<Rightarrow> scan_rows (i + 1) pt gh rs st'
               | (False, st') \<Rightarrow> st'))"

text \<open>
  The browser during one pass: the answer to \<open>driver.current_url\<close>, and the net result
  of waiting for and finding the rows (lines 1240 to 1246), each row with what the
  browser does while it is processed.
\<close>

record browser =
  current_url :: "string outcome"
  find_rows :: "row_env list outcome"

text \<open>Lines 1484 to 1493: the message is queued and the status returned.\<close>

definition queue_and_return :: "pass_state \<Rightarrow> string \<times> shared" where
  "queue_and_return st =
     (current_pass_status st,
      put_nowait \<lparr>msg_status = current_pass_status st,
                  msg_claimed_case_data = claimed_case_details_to_return st\<rparr> (globals st))"

text \<open>
  \<open>find_and_claim_cases\<close>. The \<open>return\<close> statements inside the \<open>try\<close> block (lines 1223,
  1233, 1265 and 1270) leave without queueing a message.
\<close>

definition find_and_claim_cases :: "browser option \<Rightarrow> shared \<Rightarrow> string \<times> shared" where
  "find_and_claim_cases driver sh =
     (case driver of
        None \<Rightarrow>
          (''DRIVER_DEAD_PRE_CHECK'',
           put_nowait \<lparr>msg_status = ''DRIVER_DEAD_PRE_CHECK'', msg_claimed_case_data = None\<rparr> sh)
      | Some b \<Rightarrow>
          (let active_pt_case_exists = (active_portugal_case_store sh \<noteq> None);
               active_gh_case_exists = (active_ghana_case_store sh \<noteq> None);
               st = \<lparr>current_pass_status = ''OK_NO_NEW_CLAIMABLE_SLOT_OR_CASE'',
                     claimed_case_details_to_return = None, globals = sh\<rparr>
           in if active_pt_case_exists \<and> active_gh_case_exists then (''OK_BOTH_SLOTS_FULL'', sh)
              else
                (case current_url b of
                   Raises e \<Rightarrow>
                     (if is_WebDriverException e then (''DRIVER_DEAD_RESP_CHECK'', sh)
                      else queue_and_return (st\<lparr>current_pass_status := ''ERROR_UNKNOWN_FCC_OUTER''\<rparr>))
                 | Returns _ \<Rightarrow>
                     (case find_rows b of
                        Raises e \<Rightarrow>
                          (if e = TimeoutException
                           then queue_and_return (st\<lparr>current_pass_status := ''OK_TIMEOUT_NO_ROWS''\<rparr>)
                           else if is_WebDriverException e then (''DRIVER_DEAD_ROW_FIND'', sh)
                           else (''ERROR_UNEXPECTED_FINDING_ROWS'', sh))
                      | Returns [] \<Rightarrow>
                          queue_and_return (st\<lparr>current_pass_status := ''OK_NO_ROWS_VISIBLE''\<rparr>)
                      | Returns all_rows_list \<Rightarrow>
                          queue_and_return
                            (scan_rows 0 active_pt_case_exists active_gh_case_exists
                               all_rows_list st)))))"




text \<open>
  For stating how many claims a pass makes: the number of presumed claims a log
  records, and the rows on which the navigation home after a claim either succeeds or
  raises a \<open>WebDriverException\<close>.
\<close>

definition claims_made :: "log_event list \<Rightarrow> nat" where
  "claims_made evs =
     length (filter (\<lambda>ev. case ev of ClaimSuccess d slot \<Rightarrow> True | _ \<Rightarrow> False) evs)"

definition nav_home_ok :: "row_env \<Rightarrow> bool" where
  "nav_home_ok r =
     (case nav_home_after_claim r of Raises e \<Rightarrow> is_WebDriverException e | Returns u \<Rightarrow> True)"

section \<open>Claim Coordinator: \<open>run_claimer_loop\<close>\<close>

text \<open>
  \<open>initialize_claimer_driver\<close> and \<open>check_claimer_login_status\<close> catch every exception
  and report through the status message and their return value. Their inputs are which
  of their paths the browser forces.
\<close>

datatype init_result =
    UserDataDirInvalid
  | InitWebDriverException
  | InitOtherException
  | DriverReady

datatype login_result =
    LoginUnresponsive
  | LoginRedirected string
  | LoginTimeout
  | LoginWebDriverException
  | LoginOtherException
  | LoginPassed

definition initialize_claimer_driver :: "init_result \<Rightarrow> shared \<Rightarrow> bool \<times> shared" where
  "initialize_claimer_driver res sh =
     (case res of
        UserDataDirInvalid \<Rightarrow>
          (False, sh\<lparr>claimer_status_message :=
                      ''Error: USER_DATA_DIR ('' @ [CHR 0x27] @ USER_DATA_DIR @ [CHR 0x27]
                      @ '') is invalid or not found.''\<rparr>)
      | InitWebDriverException \<Rightarrow>
          (False, sh\<lparr>claimer_status_message :=
                      ''Claimer WebDriver Initialization FAILED. Check logs.''\<rparr>)
      | InitOtherException \<Rightarrow>
          (False, sh\<lparr>claimer_status_message := ''Claimer WebDriver Error (Other). Check logs.''\<rparr>)
      | DriverReady \<Rightarrow> (True, sh\<lparr>browser_session_open := True\<rparr>))"

definition check_claimer_login_status :: "login_result \<Rightarrow> shared \<Rightarrow> bool \<times> shared" where
  "check_claimer_login_status res sh =
     (case res of
        LoginUnresponsive \<Rightarrow>
          (False, sh\<lparr>claimer_status_message :=
                      ''Claimer Login Check Failed (WebDriver Unresponsive).''\<rparr>)
      | LoginRedirected current_url_after_get \<Rightarrow>
          (False, sh\<lparr>claimer_status_message :=
                      ''Claimer: Redirected to unexpected URL: '' @ current_url_after_get
                      @ ''. Login likely failed.''\<rparr>)
      | LoginTimeout \<Rightarrow>
          (False, sh\<lparr>claimer_status_message :=
                      ''Claimer Login Check Failed (Timeout waiting for critical page elements after navigation).''\<rparr>)
      | LoginWebDriverException \<Rightarrow>
          (False, sh\<lparr>claimer_status_message :=
                      ''Claimer Login Check Failed (WebDriver Error during navigation/element search).''\<rparr>)
      | LoginOtherException \<Rightarrow>
          (False, sh\<lparr>claimer_status_message := ''Claimer Login Check Failed (Other Error).''\<rparr>)
      | LoginPassed \<Rightarrow> (True, sh))"

text \<open>
  Source lines 1503 to 1521: the boolean says whether the thread reaches the \<open>while\<close>
  loop; otherwise it returns and only the \<open>finally\<close> block follows.
\<close>

definition claimer_thread_start :: "init_result \<Rightarrow> login_result \<Rightarrow> shared \<Rightarrow> bool \<times> shared" where
  "claimer_thread_start ini login sh0 =
     (case initialize_claimer_driver ini
             (sh0\<lparr>claimer_status_message := ''Claimer: Initializing WebDriver...''\<rparr>) of
        (False, sh) \<Rightarrow>
          (False, (put_nowait \<lparr>msg_status = ''DRIVER_INIT_FAIL'', msg_claimed_case_data = None\<rparr> sh)
                    \<lparr>monitoring_active_flag := False\<rparr>)
      | (True, sh) \<Rightarrow>
          (case check_claimer_login_status login sh of
             (False, sh') \<Rightarrow>
               (False, (put_nowait \<lparr>msg_status = ''LOGIN_FAIL'', msg_claimed_case_data = None\<rparr> sh')
                         \<lparr>monitoring_active_flag := False\<rparr>)
           | (True, sh') \<Rightarrow>
               (True, sh'\<lparr>claimer_status_message := ''Claimer: Monitoring Active...''\<rparr>)))"

definition loop_err_kws :: "string list" where
  "loop_err_kws = [''ERROR'', ''FAILED'', ''CRITICAL'', ''STOP'', ''DEAD'']"

definition exit_err_kws :: "string list" where
  "exit_err_kws = [''CRITICAL'', ''FAIL'', ''ERROR'', ''DEAD'']"

definition finally_err_kws :: "string list" where
  "finally_err_kws = [''CRITICAL'', ''FAIL'', ''ERROR'', ''DEAD'', ''EXCEPTION'']"

definition critical_statuses :: "string list" where
  "critical_statuses =
     [''DRIVER_DEAD_PRE_CHECK'', ''DRIVER_DEAD_RESP_CHECK'', ''DRIVER_DEAD_ROW_FIND'',
      ''DRIVER_DEAD_ROW_PROC'', ''DRIVER_DEAD_CLAIM_PROC'', ''DRIVER_DEAD_NAV_BACK_FAIL'',
      ''DRIVER_DEAD_OUTER_FCC'', ''EXCEPTION_CALLING_FCC'', ''ERROR_UNEXPECTED_FINDING_ROWS'',
      ''ERROR_UNKNOWN_FCC_OUTER'']"

text \<open>
  A status update of the loop that is guarded by the keyword test (lines 1532, 1565,
  1568 and 1571): the message is replaced only when it holds none of the keywords.
\<close>

definition set_status_unless_error :: "string \<Rightarrow> shared \<Rightarrow> shared" where
  "set_status_unless_error msg sh =
     (if \<not> any_in loop_err_kws (upper (claimer_status_message sh))
      then sh\<lparr>claimer_status_message := msg\<rparr> else sh)"

definition str_bool :: "bool \<Rightarrow> string" where
  "str_bool b = (if b then ''True'' else ''False'')"

text \<open>\<open>s.split('_')[-1]\<close>: what follows the last underscore.\<close>

definition last_segment :: "string \<Rightarrow> string" where
  "last_segment s = rev (takeWhile (\<lambda>c. c \<noteq> CHR ''_'') (rev s))"

text \<open>
  The sleep of lines 1577 to 1582. Times are whole milliseconds, so
  \<open>int(wait_time_seconds * 20)\<close> is the number of 50 ms slices in the wait.
  \<open>sleep_slices n k\<close> runs the remaining \<open>n\<close> iterations of the \<open>for\<close> loop after \<open>k\<close>
  slices have been slept: each iteration reads the stop event and leaves if it is set,
  else sleeps one slice, during which the observer may act. It returns the number of
  slices slept.
\<close>

definition wait_slices :: "nat \<Rightarrow> nat" where
  "wait_slices loop_duration_ms = (max 100 (7000 - loop_duration_ms) * 20) div 1000"

fun sleep_slices ::
  "nat \<Rightarrow> nat \<Rightarrow> (nat \<Rightarrow> observer_action list) \<Rightarrow> shared \<Rightarrow> nat \<times> shared" where
  "sleep_slices 0 k obs sh = (k, sh)"
| "sleep_slices (Suc n) k obs sh =
     (if stop_event_claimer sh then (k, sh)
      else sleep_slices n (Suc k) obs (run_observer (obs k) sh))"

text \<open>
  What happens around one iteration of the \<open>while\<close> loop. The observer runs in another
  thread: its actions are placed before the loop condition is read, between the status
  handling and the stop check of line 1574, and in each slice of the sleep.
  \<open>thread_err\<close> is an exception of the loop body that only the outer handler of line
  1591 catches, \<open>fcc_uncaught\<close> one that leaves the call of \<open>find_and_claim_cases\<close>.
\<close>

record cycle_env =
  observer_at_head :: "observer_action list"
  thread_err :: bool
  pass_browser :: browser
  fcc_uncaught :: bool
  current_timestamp_hm :: string
  observer_after_pass :: "observer_action list"
  loop_duration_ms :: nat
  observer_during_sleep :: "nat \<Rightarrow> observer_action list"

datatype loop_result = LoopAgain | LoopExit | LoopRaised

text \<open>Lines 1545 to 1569: the status handling after the pass.\<close>

definition handle_find_status :: "string \<Rightarrow> string \<Rightarrow> shared \<Rightarrow> shared" where
  "handle_find_status find_status_result timestamp_hm sh =
     (if find_status_result \<in> set critical_statuses
      then sh\<lparr>claimer_status_message :=
                ''Claimer CRITICAL: Fatal issue detected ('' @ find_status_result
                @ ''). Forcing stop.'',
              stop_event_claimer := True\<rparr>
      else if find_status_result = ''STOPPED'' then sh
      else if str_in ''CLAIM_SUCCESS'' find_status_result
      then sh\<lparr>claimer_status_message :=
                ''Claimer: Successfully processed claim for '' @ last_segment find_status_result
                @ ''.''\<rparr>
      else if find_status_result = ''OK_BOTH_SLOTS_FULL''
      then set_status_unless_error
             (''Claimer: Both PT & GH slots full. Waiting... ('' @ timestamp_hm @ '')'') sh
      else set_status_unless_error
             (''Claimer: No new suitable case or slot. Status: '' @ find_status_result
              @ ''. ('' @ timestamp_hm @ '')'') sh)"

text \<open>Lines 1526 to 1572: the body of the loop down to the stop check.\<close>

definition monitoring_pass :: "cycle_env \<Rightarrow> shared \<Rightarrow> shared" where
  "monitoring_pass c sh =
     (let pt_slot_free_at_loop_start = (active_portugal_case_store sh = None);
          gh_slot_free_at_loop_start = (active_ghana_case_store sh = None)
      in if pt_slot_free_at_loop_start \<or> gh_slot_free_at_loop_start
         then
           (let sh1 = set_status_unless_error
                        (''Claimer: Checking for cases (PT free: ''
                         @ str_bool pt_slot_free_at_loop_start @ '', GH free: ''
                         @ str_bool gh_slot_free_at_loop_start @ '')... (''
                         @ current_timestamp_hm c @ '')'') sh;
                (find_status_result, sh2) =
                  (if fcc_uncaught c
                   then (''EXCEPTION_CALLING_FCC'',
                         sh1\<lparr>claimer_status_message :=
                               ''Claimer Error: Uncaught exception from find_and_claim_cases. Check logs.''\<rparr>)
                   else find_and_claim_cases (Some (pass_browser c)) sh1)
            in handle_find_status find_status_result (current_timestamp_hm c) sh2)
         else set_status_unless_error
                (''Claimer: Both PT & GH slots full. Waiting... ('' @ current_timestamp_hm c
                 @ '')'') sh)"

text \<open>One iteration of the \<open>while\<close> loop (lines 1523 to 1585), with its condition.\<close>

definition claimer_loop_iteration :: "cycle_env \<Rightarrow> shared \<Rightarrow> loop_result \<times> shared" where
  "claimer_loop_iteration c sh00 =
     (let sh0 = run_observer (observer_at_head c) sh00
      in if stop_event_claimer sh0 then (LoopExit, sh0)
         else if thread_err c then (LoopRaised, sh0)
         else
           (let sh1 = run_observer (observer_after_pass c) (monitoring_pass c sh0)
            in if stop_event_claimer sh1 then (LoopExit, sh1)
               else
                 (let (slept, sh2) =
                        sleep_slices (wait_slices (loop_duration_ms c)) 0
                          (observer_during_sleep c) sh1
                  in if stop_event_claimer sh2 then (LoopExit, sh2) else (LoopAgain, sh2))))"

text \<open>Lines 1587 to 1589, after the loop.\<close>

definition claimer_loop_exit :: "shared \<Rightarrow> shared" where
  "claimer_loop_exit sh =
     (if stop_event_claimer sh \<and> \<not> any_in exit_err_kws (upper (claimer_status_message sh))
      then sh\<lparr>claimer_status_message := ''Claimer: Monitoring stopped by user.''\<rparr>
      else sh)"

text \<open>The outer \<open>except\<close> clause (lines 1591 to 1598).\<close>

definition thread_err_handler :: "string \<Rightarrow> shared \<Rightarrow> shared" where
  "thread_err_handler thread_name sh =
     put_nowait \<lparr>msg_status = ''THREAD_OUTER_EXCEPTION'', msg_claimed_case_data = None\<rparr>
       (sh\<lparr>claimer_status_message :=
             ''Claimer THREAD ('' @ thread_name
             @ ''): Outer Critical Thread Error during execution. Check logs.'',
           stop_event_claimer := True\<rparr>)"

text \<open>
  The \<open>finally\<close> block (lines 1600 to 1626): the driver, if there is one, is quit, the
  monitoring flag is reset, the status gets its suffix, and the stop event is set.
\<close>

definition final_status_suffix :: string where
  "final_status_suffix = '' Claimer shut down.''"

definition final_status :: "bool \<Rightarrow> string \<Rightarrow> string" where
  "final_status stop_is_set msg =
     (if stop_is_set
      then (if any_in finally_err_kws (upper msg)
            then (if \<not> str_in ''shut down'' (lower msg) then msg @ final_status_suffix else msg)
            else if \<not> str_in ''stopped by user'' (lower msg) \<and> \<not> str_in ''shut down'' (lower msg)
            then ''Claimer: Monitoring stopped by user.'' @ final_status_suffix
            else if \<not> str_in ''shut down'' (lower msg) then msg @ final_status_suffix
            else msg)
      else if \<not> str_in ''shut down'' (lower msg) then msg @ final_status_suffix
      else msg)"

definition claimer_finally :: "shared \<Rightarrow> shared" where
  "claimer_finally sh =
     sh\<lparr>browser_session_open := False,
        monitoring_active_flag := False,
        claimer_status_message :=
          final_status (stop_event_claimer sh) (claimer_status_message sh),
        stop_event_claimer := True\<rparr>"

text \<open>
  The \<open>while\<close> loop over the iterations the environment describes. \<open>None\<close> means the loop
  is still running when the list ends.
\<close>

fun run_cycles :: "string \<Rightarrow> cycle_env list \<Rightarrow> shared \<Rightarrow> shared option" where
  "run_cycles thread_name [] sh = None"
| "run_cycles thread_name (c # cs) sh =
     (case claimer_loop_iteration c sh of
        (LoopAgain, sh') \<Rightarrow> run_cycles thread_name cs sh'
      | (LoopExit, sh') \<Rightarrow> Some (claimer_loop_exit sh')
      | (LoopRaised, sh') \<Rightarrow> Some (thread_err_handler thread_name sh'))"

text \<open>\<open>run_claimer_loop\<close>: the state when the thread has finished, if it has.\<close>

definition run_claimer_loop ::
  "string \<Rightarrow> init_result \<Rightarrow> login_result \<Rightarrow> cycle_env list \<Rightarrow> shared \<Rightarrow> shared option" where
  "run_claimer_loop thread_name ini login cycles sh =
     (case claimer_thread_start ini login sh of
        (False, sh1) \<Rightarrow> Some (claimer_finally sh1)
      | (True, sh1) \<Rightarrow> map_option claimer_finally (run_cycles thread_name cycles sh1))"

text \<open>
  For stating when the sleep ends: the shared state after the observer's actions of the
  first \<open>k\<close> slices.
\<close>

fun observed_after :: "nat \<Rightarrow> (nat \<Rightarrow> observer_action list) \<Rightarrow> shared \<Rightarrow> shared" where
  "observed_after 0 obs sh = sh"
| "observed_after (Suc k) obs sh = run_observer (obs k) (observed_after k obs sh)"


section \<open>Reporting: the leaderboard of \<open>update_sidebar_reports\<close>\<close>

text \<open>
  A row of the log as the leaderboard code reads it: the date that \<open>pd.to_datetime\<close>
  makes of the \<open>Date\<close> cell (year, month, day; \<open>None\<close> when it coerces to \<open>NaT\<close>), the
  observed time it makes of \<open>Observed Timestamp\<close>, and the strings that \<open>astype(str)\<close>
  makes of the case id, status and user cells. These library conversions are inputs.
\<close>

record log_row =
  row_date :: "(nat \<times> nat \<times> nat) option"
  observed_ts :: "nat option"
  case_id_str :: string
  status_str :: string
  user_str :: string

definition bot_user_id :: string where
  "bot_user_id = ''BOT_CLAIMED''"

text \<open>
  The body of the \<open>for\<close> loop (source lines 2652 to 2664 and 2772 to 2781), after the
  normalisation of lines 2639 to 2641: the scores per user and the case ids counted so
  far.
\<close>

definition leaderboard_step ::
  "(string \<rightharpoonup> nat) \<times> string set \<Rightarrow> log_row \<Rightarrow> (string \<rightharpoonup> nat) \<times> string set" where
  "leaderboard_step acc r =
     (let (user_scores, counted_case_ids) = acc;
          case_id = case_id_str r;
          status_v = lower (strip (status_str r));
          user = strip (user_str r);
          is_bot = (if user \<noteq> [] then str_in (lower bot_user_id) (lower user) else True)
      in if user = [] \<or> lower user = ''n/a'' \<or> user = [] \<or> is_bot then acc
         else if status_v = ''inprogress'' \<and> case_id \<notin> counted_case_ids
         then (user_scores(user \<mapsto> (case user_scores user of None \<Rightarrow> 0 | Some n \<Rightarrow> n) + 1),
               insert case_id counted_case_ids)
         else acc)"

definition leaderboard_loop :: "log_row list \<Rightarrow> (string \<rightharpoonup> nat) \<times> string set" where
  "leaderboard_loop rws = foldl leaderboard_step (Map.empty, {}) rws"

text \<open>
  \<open>sort_values\<close> by case id and observed time with \<open>na_position='first'\<close>, or by case id
  alone when no observed time parses. Strings compare by code point; the sort keeps the
  order of rows with equal keys.
\<close>

definition sort_for_leaderboard :: "log_row list \<Rightarrow> log_row list" where
  "sort_for_leaderboard rws =
     (if \<not> list_all (\<lambda>r. observed_ts r = None) rws
      then sort_key (\<lambda>r. (case_id_str r, observed_ts r)) rws
      else sort_key case_id_str rws)"

definition daily_leaderboard :: "nat \<times> nat \<times> nat \<Rightarrow> log_row list \<Rightarrow> string \<rightharpoonup> nat" where
  "daily_leaderboard selected_dt_obj rws =
     fst (leaderboard_loop
            (sort_for_leaderboard (filter (\<lambda>r. row_date r = Some selected_dt_obj) rws)))"

definition monthly_leaderboard :: "nat \<Rightarrow> nat \<Rightarrow> log_row list \<Rightarrow> string \<rightharpoonup> nat" where
  "monthly_leaderboard selected_month selected_year rws =
     fst (leaderboard_loop
            (sort_for_leaderboard
               (filter (\<lambda>r. case row_date r of
                               Some (y, m, d) \<Rightarrow> m = selected_month \<and> y = selected_year
                             | None \<Rightarrow> False) rws)))"

text \<open>
  For stating the leaderboard's result: a row counts when its user is not excluded and
  its status is in progress, and a case id is credited to the user of the first row, in
  the order given, that counts for it.
\<close>

definition norm_user :: "log_row \<Rightarrow> string" where
  "norm_user r = strip (user_str r)"

definition excluded_user :: "string \<Rightarrow> bool" where
  "excluded_user u = (u = [] \<or> lower u = ''n/a'' \<or> str_in (lower bot_user_id) (lower u))"

definition counts_row :: "log_row \<Rightarrow> bool" where
  "counts_row r = (\<not> excluded_user (norm_user r) \<and> lower (strip (status_str r)) = ''inprogress'')"

definition credited :: "log_row list \<Rightarrow> string \<Rightarrow> string set" where
  "credited rws u =
     {cid. \<exists>r. find (\<lambda>r. counts_row r \<and> case_id_str r = cid) rws = Some r \<and> norm_user r = u}"

definition score_of :: "(string \<rightharpoonup> nat) \<Rightarrow> string \<Rightarrow> nat" where
  "score_of user_scores u = (case user_scores u of None \<Rightarrow> 0 | Some n \<Rightarrow> n)"

section \<open>Concrete inputs\<close>




text \<open>
  A row handle whose columns hold the given texts, a row that is visible and on which
  every browser action succeeds, and a pass over given rows.
\<close>

definition field_row :: "(string \<times> string) list \<Rightarrow> row_element" where
  "field_row flds =
     WebElement (\<lambda>col. case map_of flds col of
                         None \<Rightarrow> Returns []
                       | Some v \<Rightarrow> Returns [ColumnDiv (\<lambda>_. Returns [Span (Returns v)])])"

definition example_row :: "(string \<times> string) list \<Rightarrow> row_env" where
  "example_row flds =
     \<lparr>observer_before_row = [], visibility = Returns True, element = field_row flds,
      id_attr = Returns None, open_and_start = Returns (),
      scrape_and_prepare_case_files = (\<lambda>_ _ _. None),
      nav_home_after_claim = Returns (), nav_home_after_error = Returns (),
      strftime_claimed = ''2025-01-01 10:00:00'', now_date = ''2025-01-01'',
      now_timestamp = ''2025-01-01 10:00:00'', log_create_ok = True, log_write_ok = True\<rparr>"

definition pass_over :: "row_env list \<Rightarrow> browser" where
  "pass_over rws = \<lparr>current_url = Returns ''https://www.appsheet.com/'', find_rows = Returns rws\<rparr>"


text \<open>
  The three rows of the scenario: a claimable, unowned Portugal row, a claimable, unowned
  Ghana row, and a Portugal row in progress under another owner. In the variant the
  navigation home after the first claim raises an exception that is not a
  \<open>WebDriverException\<close> (an HTTP read timeout of the driver connection, say).
\<close>

definition row_pt_claimable :: row_env where
  "row_pt_claimable =
     example_row [(''Main Task ID'', ''T-1''), (''Status'', ''Not Started''),
                  (''Country'', ''Portugal'')]"

definition row_gh_claimable :: row_env where
  "row_gh_claimable =
     example_row [(''Main Task ID'', ''T-2''), (''Status'', ''Not Started''),
                  (''Country'', ''Ghana'')]"

definition row_pt_owned :: row_env where
  "row_pt_owned =
     example_row [(''Main Task ID'', ''T-3''), (''Status'', ''InProgress''),
                  (''Country'', ''Portugal''), (''Useremail'', ''x@example.com'')]"

definition row_pt_nav_error :: row_env where
  "row_pt_nav_error = row_pt_claimable\<lparr>nav_home_after_claim := Raises OtherException\<rparr>"

text \<open>
  A worker that is monitoring, and an observer who presses the stop button during one
  given slice of the sleep.
\<close>

definition monitoring_state :: shared where
  "monitoring_state =
     initial_shared\<lparr>monitoring_active_flag := True, browser_session_open := True,
                    threads_started := 1,
                    claimer_status_message := ''Claimer: Monitoring Active...''\<rparr>"

definition stop_in_slice :: "nat \<Rightarrow> nat \<Rightarrow> observer_action list" where
  "stop_in_slice j k = (if k = j then [ToggleMonitoring True] else [])"

text \<open>
  Iterations of the worker's loop: one in which nobody interferes and the wait is the
  shortest, over a given browser; a browser whose session dies while the rows are
  looked for; and the state right after the observer pressed start.
\<close>

definition quiet_cycle :: "browser \<Rightarrow> cycle_env" where
  "quiet_cycle b =
     \<lparr>observer_at_head = [], thread_err = False, pass_browser = b, fcc_uncaught = False,
      current_timestamp_hm = ''10:00:00'', observer_after_pass = [],
      loop_duration_ms = 6950, observer_during_sleep = (\<lambda>_. [])\<rparr>"

definition dead_session_browser :: browser where
  "dead_session_browser =
     \<lparr>current_url = Returns ''https://www.appsheet.com/'', find_rows = Raises WebDriverException\<rparr>"

definition started_state :: shared where
  "started_state = toggle_monitoring True initial_shared"


text \<open>
  A small log: case T-1 goes in progress under alice and is seen again under bob, T-2
  is the bot's, T-3 goes in progress under bob, T-4 is completed, T-5 has no owner, and
  T-6 belongs to another day.
\<close>

definition example_log :: "log_row list" where
  "example_log =
     [\<lparr>row_date = Some (2025, 1, 1), observed_ts = Some 20, case_id_str = ''T-1'',
       status_str = '' InProgress '', user_str = ''bob''\<rparr>,
      \<lparr>row_date = Some (2025, 1, 1), observed_ts = Some 10, case_id_str = ''T-1'',
       status_str = ''InProgress'', user_str = ''alice''\<rparr>,
      \<lparr>row_date = Some (2025, 1, 1), observed_ts = Some 30, case_id_str = ''T-2'',
       status_str = ''InProgress'', user_str = ''BOT_CLAIMED''\<rparr>,
      \<lparr>row_date = Some (2025, 1, 1), observed_ts = Some 40, case_id_str = ''T-3'',
       status_str = ''inprogress'', user_str = ''bob''\<rparr>,
      \<lparr>row_date = Some (2025, 1, 1), observed_ts = Some 50, case_id_str = ''T-4'',
       status_str = ''Completed'', user_str = ''alice''\<rparr>,
      \<lparr>row_date = Some (2025, 1, 1), observed_ts = None, case_id_str = ''T-5'',
       status_str = ''InProgress'', user_str = ''N/A''\<rparr>,
      \<lparr>row_date = Some (2025, 1, 2), observed_ts = Some 60, case_id_str = ''T-6'',
       status_str = ''InProgress'', user_str = ''alice''\<rparr>]"

section \<open>Facts about the string operations\<close>








section \<open>Which rows a pass tries to claim\<close>





lemma app_log_put_nowait [simp]: "app_log_messages (put_nowait m sh) = app_log_messages sh"
  by (simp add: put_nowait_def)

lemma app_log_process_queue_msg [simp]:
  "app_log_messages (process_queue_msg sh m) = app_log_messages sh"
  by (simp add: process_queue_msg_def Let_def split: option.splits)

lemma app_log_foldl_process [simp]:
  "app_log_messages (foldl process_queue_msg sh ms) = app_log_messages sh"
  by (induction ms arbitrary: sh) simp_all

lemma app_log_apply_observer [simp]:
  "app_log_messages (apply_observer sh a) = app_log_messages sh"
  by (cases a)
    (simp_all add: toggle_monitoring_def update_active_cases_display_def
      finish_case_callback_def split: option.splits)

lemma app_log_run_observer [simp]:
  "app_log_messages (run_observer acts sh) = app_log_messages sh"
  unfolding run_observer_def by (induction acts arbitrary: sh) simp_all

lemma app_log_colleague [simp]:
  "app_log_messages (globals (snd (log_colleague_activity r sc st))) = app_log_messages (globals st)"
  by (simp add: log_colleague_activity_def split: outcome.splits)

lemma app_log_claim_except [simp]:
  "app_log_messages (globals (snd (claim_except r e st))) = app_log_messages (globals st)"
  by (simp add: claim_except_def split: outcome.splits)

lemma app_log_attempt_claim:
  "app_log_messages (globals (snd (attempt_claim r sc cf slot st)))
     = app_log_messages (globals st)
       @ (case open_and_start r of Returns _ \<Rightarrow> [ClaimSuccess (scan_display_id sc) slot]
          | Raises _ \<Rightarrow> [])"
  by (simp add: attempt_claim_def Let_def add_log_def split: outcome.splits option.splits)

lemma app_log_after_attempt:
  "app_log_messages (globals (snd (case p of
        (BreakLoop, st3) \<Rightarrow> (Inr BreakLoop, st3)
      | (_, st3) \<Rightarrow> log_colleague_activity r sc st3)))
     = app_log_messages (globals (snd p))"
  by (cases p; cases "fst p") simp_all





lemma app_log_queue_and_return [simp]:
  "app_log_messages (snd (queue_and_return st)) = app_log_messages (globals st)"
  by (simp add: queue_and_return_def)

lemma app_log_find_and_claim_cases:
  "app_log_messages (snd (find_and_claim_cases driver sh)) = app_log_messages sh
   \<or> (\<exists>b rs s. driver = Some b \<and> find_rows b = Returns rs
        \<and> app_log_messages (snd (find_and_claim_cases driver sh))
        = app_log_messages (globals (scan_rows 0 (active_portugal_case_store sh \<noteq> None)
            (active_ghana_case_store sh \<noteq> None) rs
            \<lparr>current_pass_status = s, claimed_case_details_to_return = None, globals = sh\<rparr>)))"
  unfolding find_and_claim_cases_def Let_def
  by (simp del: scan_rows.simps split: option.split outcome.split list.split) blast



lemma extract_field_row:
  "extract_field_data (field_row fs) col xp d =
     Returns (case map_of fs col of None \<Rightarrow> d
              | Some v \<Rightarrow> if strip v = [] then d else strip v)"
  by (simp add: extract_field_data_def extract_body_def field_row_def strip_def
      split: option.splits)




section \<open>What the end of the worker leaves behind\<close>







text \<open>
  The same happens when the session dies while the rows are looked for: the pass
  returns \<open>DRIVER_DEAD_ROW_FIND\<close> without queueing it, and the observer, which clears the
  slots for the statuses \<open>DRIVER_DEAD\<close> and \<open>THREAD_EXCEPTION\<close> only, keeps the claimed
  case.
\<close>

lemma slots_survive_dead_session:
  "map_option
     (\<lambda>sh. (map_option display_id (active_portugal_case_store (update_active_cases_display sh)),
            data_queue_claimer sh, browser_session_open sh, claimer_status_message sh))
     (run_claimer_loop ''T'' DriverReady LoginPassed
        [(quiet_cycle (pass_over [row_pt_claimable]))
           \<lparr>observer_after_pass := [UpdateActiveCasesDisplay]\<rparr>,
         quiet_cycle dead_session_browser]
        started_state)
     = Some (Some ''T-1'', [], False,
         ''Claimer CRITICAL: Fatal issue detected (DRIVER_DEAD_ROW_FIND). Forcing stop. Claimer shut down.'')"
  by code_simp

section \<open>How many claims a pass makes\<close>

text \<open>
  When on every row the navigation home after a claim succeeds or raises a
  \<open>WebDriverException\<close>, a pass presumes at most one claim.
\<close>

lemma attempt_claim_breaks:
  "nav_home_ok r \<Longrightarrow> open_and_start r = Returns u \<Longrightarrow>
     fst (attempt_claim r sc cf slot st) = BreakLoop"
  by (auto simp: attempt_claim_def nav_home_ok_def claim_except_def Let_def
      split: outcome.splits)

lemma row_try_claims:
  assumes "nav_home_ok r"
  shows "\<exists>evs. app_log_messages (globals (snd (row_try i pt gh r st)))
            = app_log_messages (globals st) @ evs
          \<and> claims_made evs \<le> 1
          \<and> (claims_made evs = 1 \<longrightarrow> fst (row_try i pt gh r st) = Inr BreakLoop)"
proof (cases "scan_row i r")
  case (Raises e)
  then show ?thesis
    by (intro exI [where x = "[LocateRow (i + 1)]"])
      (simp add: row_try_def Let_def add_log_def claims_made_def)
next
  case (Returns o_sc)
  show ?thesis
  proof (cases o_sc)
    case None
    with Returns show ?thesis
      by (intro exI [where x = "[LocateRow (i + 1)]"])
        (simp add: row_try_def Let_def add_log_def claims_made_def)
  next
    case (Some sc)
    let ?scan = "RowScan (i + 1) (scan_display_id sc) (scan_country sc) (scan_status sc)
        (scan_user_email sc)"
    show ?thesis
    proof (cases "claim_this_case_for_country_slot pt gh (scan_country sc) (scan_status sc)")
      case None
      with Returns Some show ?thesis
        by (intro exI [where x = "[LocateRow (i + 1), ?scan]"])
          (simp add: row_try_def Let_def add_log_def claims_made_def)
    next
      case (Some slot)
      note slot = this
      show ?thesis
      proof (cases "extract_claim_fields r")
        case (Raises e)
        with Returns \<open>o_sc = Some sc\<close> slot show ?thesis
          by (intro exI [where x = "[LocateRow (i + 1), ?scan,
                PotentialClaim slot (scan_display_id sc)]"])
            (simp add: row_try_def Let_def add_log_def claims_made_def)
      next
        case (Returns cf)
        note cf = this
        let ?st2 = "st\<lparr>globals := (globals st)\<lparr>app_log_messages :=
              app_log_messages (globals st) @ [LocateRow (i + 1), ?scan,
                PotentialClaim slot (scan_display_id sc)]\<rparr>\<rparr>"
        have rt: "row_try i pt gh r st =
            (case attempt_claim r sc cf slot ?st2 of
               (BreakLoop, st3) \<Rightarrow> (Inr BreakLoop, st3)
             | (_, st3) \<Rightarrow> log_colleague_activity r sc st3)"
          using \<open>scan_row i r = Returns o_sc\<close> \<open>o_sc = Some sc\<close> slot cf
          by (simp add: row_try_def Let_def add_log_def)
        show ?thesis
        proof (cases "open_and_start r")
          case (Raises e)
          then show ?thesis
            by (intro exI [where x = "[LocateRow (i + 1), ?scan,
                PotentialClaim slot (scan_display_id sc)]"])
              (simp add: rt app_log_after_attempt app_log_attempt_claim claims_made_def)
        next
          case (Returns u)
          obtain f st3 where ac: "attempt_claim r sc cf slot ?st2 = (f, st3)"
            by (cases "attempt_claim r sc cf slot ?st2")
          with attempt_claim_breaks [OF assms Returns, of sc cf slot ?st2]
          have "f = BreakLoop" by simp
          with ac have "fst (row_try i pt gh r st) = Inr BreakLoop"
            by (simp add: rt)
          with Returns show ?thesis
            by (intro exI [where x = "[LocateRow (i + 1), ?scan,
                PotentialClaim slot (scan_display_id sc), ClaimSuccess (scan_display_id sc) slot]"])
              (simp add: rt app_log_after_attempt app_log_attempt_claim claims_made_def)
        qed
      qed
    qed
  qed
qed

lemma process_row_claims:
  assumes "nav_home_ok r"
  shows "\<exists>evs. app_log_messages (globals (snd (process_row i pt gh r st)))
            = app_log_messages (globals st) @ evs
          \<and> claims_made evs \<le> 1
          \<and> (claims_made evs = 1 \<longrightarrow> \<not> fst (process_row i pt gh r st))"
proof -
  from row_try_claims [OF assms, of i pt gh st]
  obtain evs where e: "app_log_messages (globals (snd (row_try i pt gh r st)))
            = app_log_messages (globals st) @ evs"
    "claims_made evs \<le> 1"
    "claims_made evs = 1 \<longrightarrow> fst (row_try i pt gh r st) = Inr BreakLoop"
    by blast
  have a: "app_log_messages (globals (snd (process_row i pt gh r st)))
      = app_log_messages (globals (snd (row_try i pt gh r st)))"
    by (simp add: process_row_def split: prod.splits sum.splits flow.splits)
  have b: "\<not> fst (process_row i pt gh r st)" if "fst (row_try i pt gh r st) = Inr BreakLoop"
  proof -
    obtain x st1 where rt: "row_try i pt gh r st = (x, st1)"
      by (cases "row_try i pt gh r st")
    with that have "x = Inr BreakLoop" by simp
    with rt show ?thesis by (simp add: process_row_def)
  qed
  from e a b show ?thesis by auto
qed

lemma claims_made_append: "claims_made (xs @ ys) = claims_made xs + claims_made ys"
  by (simp add: claims_made_def)

lemma scan_rows_claims:
  "list_all nav_home_ok rs \<Longrightarrow>
     \<exists>evs. app_log_messages (globals (scan_rows i pt gh rs st))
            = app_log_messages (globals st) @ evs \<and> claims_made evs \<le> 1"
proof (induction rs arbitrary: i st)
  case Nil
  show ?case by (simp add: claims_made_def)
next
  case (Cons r rs)
  let ?st = "st\<lparr>globals := run_observer (observer_before_row r) (globals st)\<rparr>"
  have a: "app_log_messages (globals ?st) = app_log_messages (globals st)" by simp
  from Cons.prems have ok: "nav_home_ok r" and oks: "list_all nav_home_ok rs" by simp_all
  show ?case
  proof (cases "stop_event_claimer (globals ?st)")
    case True
    then show ?thesis by (simp add: Let_def claims_made_def)
  next
    case False
    obtain b st' where p: "process_row i pt gh r ?st = (b, st')"
      by (cases "process_row i pt gh r ?st")
    from process_row_claims [OF ok, of i pt gh ?st] p a
    obtain evs where e: "app_log_messages (globals st') = app_log_messages (globals st) @ evs"
      "claims_made evs \<le> 1" "claims_made evs = 1 \<longrightarrow> \<not> b"
      by auto
    show ?thesis
    proof (cases b)
      case True
      with False p have s: "scan_rows i pt gh (r # rs) st = scan_rows (i + 1) pt gh rs st'"
        by (simp add: Let_def)
      from True e have z: "claims_made evs = 0" by auto
      from Cons.IH [OF oks, of "i + 1" st']
      obtain evs' where e': "app_log_messages (globals (scan_rows (i + 1) pt gh rs st'))
            = app_log_messages (globals st') @ evs'" "claims_made evs' \<le> 1"
        by blast
      show ?thesis
        unfolding s using e e' z
        by (intro exI [where x = "evs @ evs'"])
          (simp del: scan_rows.simps add: claims_made_append)
    next
      case False
      with \<open>\<not> stop_event_claimer (globals ?st)\<close> p
      have "scan_rows i pt gh (r # rs) st = st'" by (simp add: Let_def)
      with e show ?thesis by auto
    qed
  qed
qed

lemma one_claim_per_pass_when_navigation_ok:
  assumes "\<And>b rs. driver = Some b \<Longrightarrow> find_rows b = Returns rs \<Longrightarrow> list_all nav_home_ok rs"
  shows "\<exists>evs. app_log_messages (snd (find_and_claim_cases driver sh))
            = app_log_messages sh @ evs \<and> claims_made evs \<le> 1"
  using app_log_find_and_claim_cases [of driver sh]
proof
  assume "app_log_messages (snd (find_and_claim_cases driver sh)) = app_log_messages sh"
  then show ?thesis by (intro exI [where x = "[]"]) (simp add: claims_made_def)
next
  assume "\<exists>b rs s. driver = Some b \<and> find_rows b = Returns rs
        \<and> app_log_messages (snd (find_and_claim_cases driver sh))
        = app_log_messages (globals (scan_rows 0 (active_portugal_case_store sh \<noteq> None)
            (active_ghana_case_store sh \<noteq> None) rs
            \<lparr>current_pass_status = s, claimed_case_details_to_return = None, globals = sh\<rparr>))"
  then obtain b rs s where d: "driver = Some b" "find_rows b = Returns rs"
    and e: "app_log_messages (snd (find_and_claim_cases driver sh))
        = app_log_messages (globals (scan_rows 0 (active_portugal_case_store sh \<noteq> None)
            (active_ghana_case_store sh \<noteq> None) rs
            \<lparr>current_pass_status = s, claimed_case_details_to_return = None, globals = sh\<rparr>))"
    by blast
  from scan_rows_claims [OF assms [OF d], of 0 "active_portugal_case_store sh \<noteq> None"
      "active_ghana_case_store sh \<noteq> None"
      "\<lparr>current_pass_status = s, claimed_case_details_to_return = None, globals = sh\<rparr>"]
  show ?thesis unfolding e by simp
qed

text \<open>
  The scenario of claim C3 when every browser action succeeds: the first row is claimed
  for Portugal, one message for it is queued, the Ghana row and the third row are not
  looked at.
\<close>

lemma three_row_scenario:
  "fst (find_and_claim_cases
          (Some (pass_over [row_pt_claimable, row_gh_claimable, row_pt_owned])) initial_shared)
     = ''CLAIM_SUCCESS_PORTUGAL''
   \<and> app_log_messages (snd (find_and_claim_cases
          (Some (pass_over [row_pt_claimable, row_gh_claimable, row_pt_owned])) initial_shared))
     = [LocateRow 1, RowScan 1 ''T-1'' ''Portugal'' ''Not Started'' ''N/A'',
        PotentialClaim ''Portugal'' ''T-1'', ClaimSuccess ''T-1'' ''Portugal'']
   \<and> map (\<lambda>m. (msg_status m, map_option country (msg_claimed_case_data m)))
        (data_queue_claimer (snd (find_and_claim_cases
          (Some (pass_over [row_pt_claimable, row_gh_claimable, row_pt_owned])) initial_shared)))
     = [(''CLAIM_SUCCESS_PORTUGAL'', Some ''Portugal'')]
   \<and> active_ghana_case_store (snd (find_and_claim_cases
          (Some (pass_over [row_pt_claimable, row_gh_claimable, row_pt_owned])) initial_shared))
     = None"
  by code_simp

text \<open>
  Claim C3 on an input where it fails. After the first row is claimed, the navigation
  home raises an exception that is not a \<open>WebDriverException\<close>. The generic \<open>except\<close>
  clause of the claim attempt navigates back and scanning goes on: the Ghana row is
  claimed in the same pass, and the one queued message carries the Ghana case only.
\<close>

theorem two_claims_after_navigation_error:
  "fst (find_and_claim_cases
          (Some (pass_over [row_pt_nav_error, row_gh_claimable, row_pt_owned])) initial_shared)
     = ''CLAIM_SUCCESS_GHANA''
   \<and> app_log_messages (snd (find_and_claim_cases
          (Some (pass_over [row_pt_nav_error, row_gh_claimable, row_pt_owned])) initial_shared))
     = [LocateRow 1, RowScan 1 ''T-1'' ''Portugal'' ''Not Started'' ''N/A'',
        PotentialClaim ''Portugal'' ''T-1'', ClaimSuccess ''T-1'' ''Portugal'',
        LocateRow 2, RowScan 2 ''T-2'' ''Ghana'' ''Not Started'' ''N/A'',
        PotentialClaim ''Ghana'' ''T-2'', ClaimSuccess ''T-2'' ''Ghana'']
   \<and> map (\<lambda>m. (msg_status m, map_option country (msg_claimed_case_data m)))
        (data_queue_claimer (snd (find_and_claim_cases
          (Some (pass_over [row_pt_nav_error, row_gh_claimable, row_pt_owned])) initial_shared)))
     = [(''CLAIM_SUCCESS_GHANA'', Some ''Ghana'')]"
  by code_simp

section \<open>Activity Log: append-only, missing fields\<close>


























section \<open>Field extraction: defaults and re-raised errors\<close>

lemma reraised_iff:
  "(e = StaleElementReferenceException \<or> e = WebDriverException
      \<or> e = TimeoutException \<or> e = ElementClickInterceptedException)
   = (e \<noteq> NoSuchElementException \<and> is_WebDriverException e)"
  by (cases e) auto

text \<open>
  Claim C6. For every row handle and field name, \<open>extract_field_data\<close> returns a string;
  it returns the default when the row is not a web element, when the column or its span
  is absent, and when the text is empty or only white space, and the stripped text
  otherwise. An exception of any of its three browser calls is re-raised when it is a
  \<open>StaleElementReferenceException\<close> or another \<open>WebDriverException\<close> (a timeout, an
  intercepted click, a dead session); a \<open>NoSuchElementException\<close> and every exception
  that is not a \<open>WebDriverException\<close> give the default instead of propagating.
\<close>

theorem extract_field_data_contract:
  "(row = NotAWebElement \<longrightarrow> extract_field_data row col xp d = Returns d)
   \<and> (\<forall>f e. row = WebElement f \<and> f col = Raises e \<longrightarrow>
          extract_field_data row col xp d =
            (if e = StaleElementReferenceException \<or> e = WebDriverException
                \<or> e = TimeoutException \<or> e = ElementClickInterceptedException
             then Raises e else Returns d))
   \<and> (\<forall>f. row = WebElement f \<and> f col = Returns [] \<longrightarrow>
          extract_field_data row col xp d = Returns d)
   \<and> (\<forall>f cd cds e. row = WebElement f \<and> f col = Returns (cd # cds)
          \<and> find_spans cd xp = Raises e \<longrightarrow>
          extract_field_data row col xp d =
            (if e = StaleElementReferenceException \<or> e = WebDriverException
                \<or> e = TimeoutException \<or> e = ElementClickInterceptedException
             then Raises e else Returns d))
   \<and> (\<forall>f cd cds. row = WebElement f \<and> f col = Returns (cd # cds)
          \<and> find_spans cd xp = Returns [] \<longrightarrow>
          extract_field_data row col xp d = Returns d)
   \<and> (\<forall>f cd cds sp sps e. row = WebElement f \<and> f col = Returns (cd # cds)
          \<and> find_spans cd xp = Returns (sp # sps) \<and> span_text sp = Raises e \<longrightarrow>
          extract_field_data row col xp d =
            (if e = StaleElementReferenceException \<or> e = WebDriverException
                \<or> e = TimeoutException \<or> e = ElementClickInterceptedException
             then Raises e else Returns d))
   \<and> (\<forall>f cd cds sp sps raw. row = WebElement f \<and> f col = Returns (cd # cds)
          \<and> find_spans cd xp = Returns (sp # sps) \<and> span_text sp = Returns raw \<longrightarrow>
          extract_field_data row col xp d =
            Returns (if strip raw = [] then d else strip raw))"
  unfolding reraised_iff
  by (auto simp: extract_field_data_def extract_body_def strip_def
      split: row_element.splits outcome.splits list.splits sum.splits if_splits)

theorem extract_field_data_contract_witness:
  "extract_field_data (WebElement (\<lambda>_. Raises StaleElementReferenceException))
       ''Status'' text_span_xpath Not_Specified = Raises StaleElementReferenceException
   \<and> extract_field_data
       (WebElement (\<lambda>_. Returns [ColumnDiv (\<lambda>_. Raises WebDriverException)]))
       ''Status'' text_span_xpath Not_Specified = Raises WebDriverException
   \<and> extract_field_data
       (WebElement (\<lambda>_. Returns [ColumnDiv (\<lambda>_. Returns [Span (Raises OtherException)])]))
       ''Status'' text_span_xpath Not_Specified = Returns ''Not Specified''
   \<and> extract_field_data (WebElement (\<lambda>_. Returns []))
       ''Status'' text_span_xpath Not_Specified = Returns ''Not Specified''
   \<and> extract_field_data
       (WebElement (\<lambda>_. Returns [ColumnDiv (\<lambda>_. Returns [Span (Returns ''  '')])]))
       ''Status'' text_span_xpath Not_Specified = Returns ''Not Specified''"
  using
    extract_field_data_contract [of "WebElement (\<lambda>_. Raises StaleElementReferenceException)"
      "''Status''" text_span_xpath Not_Specified]
    extract_field_data_contract
      [of "WebElement (\<lambda>_. Returns [ColumnDiv (\<lambda>_. Raises WebDriverException)])"
      "''Status''" text_span_xpath Not_Specified]
    extract_field_data_contract
      [of "WebElement (\<lambda>_. Returns [ColumnDiv (\<lambda>_. Returns [Span (Raises OtherException)])])"
      "''Status''" text_span_xpath Not_Specified]
    extract_field_data_contract [of "WebElement (\<lambda>_. Returns [])"
      "''Status''" text_span_xpath Not_Specified]
    extract_field_data_contract
      [of "WebElement (\<lambda>_. Returns [ColumnDiv (\<lambda>_. Returns [Span (Returns ''  '')])])"
      "''Status''" text_span_xpath Not_Specified]
  by (simp add: Not_Specified_def strip_def isspace_def)

section \<open>The interruptible sleep\<close>

lemma observed_after_shift:
  "observed_after (Suc m) f sh = observed_after m (\<lambda>i. f (Suc i)) (run_observer (f 0) sh)"
  by (induction m) simp_all

lemma sleep_slices_bounds:
  "k \<le> fst (sleep_slices n k obs sh) \<and> fst (sleep_slices n k obs sh) \<le> k + n"
proof (induction n arbitrary: k sh)
  case 0
  show ?case by simp
next
  case (Suc n)
  from Suc.IH [of "Suc k" "run_observer (obs k) sh"] show ?case by auto
qed

lemma sleep_slices_stopped:
  "fst (sleep_slices n k obs sh) < k + n \<Longrightarrow> stop_event_claimer (snd (sleep_slices n k obs sh))"
proof (induction n arbitrary: k sh)
  case 0
  then show ?case by simp
next
  case (Suc n)
  from Suc.prems Suc.IH [of "Suc k" "run_observer (obs k) sh"] show ?case
    by (cases "stop_event_claimer sh") auto
qed

lemma sleep_slices_state:
  "snd (sleep_slices n k obs sh)
     = observed_after (fst (sleep_slices n k obs sh) - k) (\<lambda>i. obs (k + i)) sh"
proof (induction n arbitrary: k sh)
  case 0
  show ?case by simp
next
  case (Suc n)
  show ?case
  proof (cases "stop_event_claimer sh")
    case True
    then show ?thesis by simp
  next
    case False
    let ?sh = "run_observer (obs k) sh"
    let ?f = "fst (sleep_slices n (Suc k) obs ?sh)"
    from sleep_slices_bounds [of "Suc k" n obs ?sh] have "Suc k \<le> ?f" by simp
    then have e: "?f - k = Suc (?f - Suc k)" by arith
    have "snd (sleep_slices n (Suc k) obs ?sh)
        = observed_after (?f - Suc k) (\<lambda>i. obs (Suc k + i)) ?sh"
      by (rule Suc.IH)
    also have "\<dots> = observed_after (?f - k) (\<lambda>i. obs (k + i)) sh"
      unfolding e by (simp add: observed_after_shift del: observed_after.simps)
    finally show ?thesis using False by simp
  qed
qed

lemma sleep_slices_leaves_early:
  "m \<le> n \<Longrightarrow> stop_event_claimer (observed_after m (\<lambda>i. obs (k + i)) sh) \<Longrightarrow>
     fst (sleep_slices n k obs sh) \<le> k + m"
proof (induction n arbitrary: k sh m)
  case 0
  then show ?case by simp
next
  case (Suc n)
  show ?case
  proof (cases "stop_event_claimer sh")
    case True
    then show ?thesis by simp
  next
    case False
    with Suc.prems(2) obtain m' where m': "m = Suc m'" by (cases m) auto
    let ?sh = "run_observer (obs k) sh"
    have "stop_event_claimer (observed_after m' (\<lambda>i. obs (Suc k + i)) ?sh)"
      using Suc.prems(2) unfolding m'
      by (simp add: observed_after_shift del: observed_after.simps)
    with Suc.IH [of m' "Suc k" ?sh] Suc.prems(1) m'
    have "fst (sleep_slices n (Suc k) obs ?sh) \<le> Suc k + m'" by simp
    with False m' show ?thesis by simp
  qed
qed

text \<open>
  Claim C7. The sleep is a loop of 50 ms slices that reads the stop event before each
  slice. If the stop event is set at the start, no slice is slept; if the observer sets
  it during slice \<open>j\<close>, the sleep ends with that slice: at most \<open>j + 1\<close> slices are slept,
  not the full wait. A sleep that ends before the full wait ends with the stop event
  set, the state on leaving is the state the observer left after the slices slept, and
  the full wait is between 2 and 140 slices. Time is counted in slices; how long the
  operating system makes one \<open>time.sleep(0.05)\<close> last is outside the model.
\<close>

theorem sleep_ends_within_one_slice:
  "fst (sleep_slices n 0 obs sh) \<le> n
   \<and> snd (sleep_slices n 0 obs sh) = observed_after (fst (sleep_slices n 0 obs sh)) obs sh
   \<and> (fst (sleep_slices n 0 obs sh) < n \<longrightarrow> stop_event_claimer (snd (sleep_slices n 0 obs sh)))
   \<and> (\<forall>j < n. stop_event_claimer (observed_after (Suc j) obs sh) \<longrightarrow>
         fst (sleep_slices n 0 obs sh) \<le> Suc j)
   \<and> (stop_event_claimer sh \<longrightarrow> fst (sleep_slices n 0 obs sh) = 0)
   \<and> 2 \<le> wait_slices d \<and> wait_slices d \<le> 140"
proof -
  have a: "\<forall>j < n. stop_event_claimer (observed_after (Suc j) obs sh) \<longrightarrow>
         fst (sleep_slices n 0 obs sh) \<le> Suc j"
    using sleep_slices_leaves_early [of _ n obs 0 sh] by auto
  have b: "stop_event_claimer sh \<longrightarrow> fst (sleep_slices n 0 obs sh) = 0"
    using sleep_slices_leaves_early [of 0 n obs 0 sh] by auto
  have c: "2 \<le> wait_slices d \<and> wait_slices d \<le> 140"
    by (simp add: wait_slices_def max_def) arith
  from sleep_slices_bounds [of 0 n obs sh] sleep_slices_stopped [of n 0 obs sh]
    sleep_slices_state [of n 0 obs sh] a b c
  show ?thesis by auto
qed

theorem sleep_ends_within_one_slice_witness:
  "stop_event_claimer (observed_after (Suc 3) (stop_in_slice 3) monitoring_state)
   \<and> \<not> stop_event_claimer (observed_after 3 (stop_in_slice 3) monitoring_state)
   \<and> fst (sleep_slices (wait_slices 0) 0 (stop_in_slice 3) monitoring_state) \<le> 4
   \<and> wait_slices 0 = 140"
proof -
  have h: "stop_event_claimer (observed_after (Suc 3) (stop_in_slice 3) monitoring_state)"
    by code_simp
  have g: "\<not> stop_event_claimer (observed_after 3 (stop_in_slice 3) monitoring_state)"
    by code_simp
  have w: "wait_slices 0 = 140" by (simp add: wait_slices_def)
  have a: "(3::nat) < wait_slices 0" by (simp add: w)
  note b = sleep_ends_within_one_slice [of "wait_slices 0" "stop_in_slice 3" monitoring_state 0,
      THEN conjunct2, THEN conjunct2, THEN conjunct2, THEN conjunct1, rule_format, OF a h]
  then have "fst (sleep_slices (wait_slices 0) 0 (stop_in_slice 3) monitoring_state) \<le> Suc 3" .
  with h g w show ?thesis by (simp del: observed_after.simps)
qed

section \<open>The status string after a fatal condition\<close>














section \<open>Finishing a claimed case\<close>



end
